theory Spec2Isabelle
  imports Main "HOL-Library.Char_ord"
begin

section \<open>Strings, whitespace and the two string helpers\<close>

text \<open>
  The validation module works on the raw values of form inputs and on the detail record
  that groups six of them. A value is absent (\<open>null\<close> or \<open>undefined\<close>), a string, or
  a detail record, the object
  \<^verbatim>\<open>{ language, pageCount, publisher, edition, coverImageUrl, description }\<close>
  that the form handler builds. Strings are lists of characters with codes 0 to 255.

  \<open>white_space\<close> is the set that \<open>String.prototype.trim\<close>, the class \<open>\s\<close> of a regular
  expression and the conversion of a string to a number all share (WhiteSpace and
  LineTerminator of the language), as far as it lies below code 256: TAB, LF, VT, FF, CR,
  SPACE and NO-BREAK SPACE.
\<close>

datatype js_value = Absent | Str string | Detail book_detail
and book_detail =
  Book_detail (description: js_value) (language: js_value) (pageCount: js_value)
    (publisher: js_value) (coverImageUrl: js_value) (edition: js_value)

definition white_space :: "char \<Rightarrow> bool" where
  "white_space c = (of_char c \<in> {9, 10, 11, 12, 13, 32, 160 :: nat})"

definition trim :: "string \<Rightarrow> string" where
  "trim s = rev (dropWhile white_space (rev (dropWhile white_space s)))"

text \<open>
  Modelled from the spec: \<open>isEmpty\<close> and \<open>safeTrim\<close> are imported from
  \<open>../utils/helpers\<close>, which is not among the sources. The spec's emptiness check: a value
  is missing if it is null/absent or, after removing leading and trailing whitespace, has
  zero length. \<open>safeTrim\<close> is the whitespace-trimmed value; every validator calls it only
  after \<open>isEmpty\<close> has returned false, so the value chosen here for the absent input
  (the empty string) is never consulted.

  That rule speaks of absent values and of strings. \<open>validators.detail\<close> hands
  \<open>isEmpty\<close> the detail record, an object, and the spec does not say which records the
  helper finds empty, nor what \<open>safeTrim\<close> makes of one. Those two answers are the
  parameter \<open>h\<close> of the model: every definition below takes it, and every theorem holds
  for every \<open>h\<close>.
\<close>

record helpers =
  isEmpty_object :: "book_detail \<Rightarrow> bool"
  safeTrim_object :: "book_detail \<Rightarrow> string"

definition isEmpty :: "helpers \<Rightarrow> js_value \<Rightarrow> bool" where
  "isEmpty h v =
     (case v of
        Absent \<Rightarrow> True
      | Str s \<Rightarrow> length (trim s) = 0
      | Detail d \<Rightarrow> isEmpty_object h d)"

definition safeTrim :: "helpers \<Rightarrow> js_value \<Rightarrow> string" where
  "safeTrim h v =
     (case v of
        Absent \<Rightarrow> []
      | Str s \<Rightarrow> trim s
      | Detail d \<Rightarrow> safeTrim_object h d)"

section \<open>Regular expressions\<close>

text \<open>
  The patterns of the module use literals, character classes, grouping, alternation,
  \<open>?\<close>, \<open>+\<close>, \<open>*\<close> and counted repetition \<open>{m,n}\<close>. None has a flag, each starts with
  \<open>^\<close> and ends with \<open>$\<close>, and none has a back reference or a look-around, so
  \<open>RegExp.prototype.test\<close> answers whether the whole string belongs to the regular
  language of the pattern. \<open>Fail\<close> (no string at all) is not pattern syntax: the
  derivative needs it.
\<close>

datatype regex =
    Fail
  | Eps
  | Cls "char \<Rightarrow> bool"
  | Seq regex regex
  | Alt regex regex
  | Star regex

definition Lit :: "char \<Rightarrow> regex" where
  "Lit c = Cls (\<lambda>x. x = c)"

definition Opt :: "regex \<Rightarrow> regex" where
  "Opt r = Alt r Eps"

definition Plus :: "regex \<Rightarrow> regex" where
  "Plus r = Seq r (Star r)"

primrec exactly :: "nat \<Rightarrow> regex \<Rightarrow> regex" where
  "exactly 0 r = Eps"
| "exactly (Suc n) r = Seq r (exactly n r)"

primrec at_most :: "nat \<Rightarrow> regex \<Rightarrow> regex" where
  "at_most 0 r = Eps"
| "at_most (Suc n) r = Opt (Seq r (at_most n r))"

definition between :: "nat \<Rightarrow> nat \<Rightarrow> regex \<Rightarrow> regex" where
  \<comment> \<open>\<open>r{lo,hi}\<close>\<close>
  "between lo hi r = Seq (exactly lo r) (at_most (hi - lo) r)"

primrec word :: "string \<Rightarrow> regex" where
  "word [] = Eps"
| "word (c # cs) = Seq (Lit c) (word cs)"

primrec nullable :: "regex \<Rightarrow> bool" where
  "nullable Fail = False"
| "nullable Eps = True"
| "nullable (Cls p) = False"
| "nullable (Seq r s) = (nullable r \<and> nullable s)"
| "nullable (Alt r s) = (nullable r \<or> nullable s)"
| "nullable (Star r) = True"

primrec deriv :: "char \<Rightarrow> regex \<Rightarrow> regex" where
  "deriv c Fail = Fail"
| "deriv c Eps = Fail"
| "deriv c (Cls p) = (if p c then Eps else Fail)"
| "deriv c (Seq r s) =
     (if nullable r then Alt (Seq (deriv c r) s) (deriv c s) else Seq (deriv c r) s)"
| "deriv c (Alt r s) = Alt (deriv c r) (deriv c s)"
| "deriv c (Star r) = Seq (deriv c r) (Star r)"

primrec derivs :: "string \<Rightarrow> regex \<Rightarrow> regex" where
  "derivs [] r = r"
| "derivs (c # cs) r = derivs cs (deriv c r)"

definition test :: "regex \<Rightarrow> string \<Rightarrow> bool" where
  \<comment> \<open>\<open>/^r$/.test(s)\<close>\<close>
  "test r s = nullable (derivs s r)"

text \<open>
  The language of a pattern, to state what \<open>test\<close> decides: \<open>star L\<close> is the set of
  concatenations of finitely many strings of \<open>L\<close>.
\<close>

inductive_set star :: "string set \<Rightarrow> string set" for L :: "string set" where
  star_empty: "[] \<in> star L"
| star_more: "u \<in> L \<Longrightarrow> v \<in> star L \<Longrightarrow> u @ v \<in> star L"

primrec lang :: "regex \<Rightarrow> string set" where
  "lang Fail = {}"
| "lang Eps = {[]}"
| "lang (Cls p) = {[c] | c. p c}"
| "lang (Seq r s) = {u @ v | u v. u \<in> lang r \<and> v \<in> lang s}"
| "lang (Alt r s) = lang r \<union> lang s"
| "lang (Star r) = star (lang r)"

text \<open>The character classes \<open>\d\<close>, \<open>\w\<close>, \<open>\S\<close> and the bracket classes of the patterns.\<close>

definition digit :: "char \<Rightarrow> bool" where
  "digit c = (CHR ''0'' \<le> c \<and> c \<le> CHR ''9'')"

definition word_char :: "char \<Rightarrow> bool" where
  "word_char c =
     ((CHR ''a'' \<le> c \<and> c \<le> CHR ''z'') \<or> (CHR ''A'' \<le> c \<and> c \<le> CHR ''Z'') \<or> digit c
      \<or> c = CHR ''_'')"

definition non_space :: "char \<Rightarrow> bool" where
  "non_space c = (\<not> white_space c)"

text \<open>
  \<^verbatim>\<open>
  export const patterns = {
      ...
      pageCount: /^[1-9][0-9]*$/,
      coverImageUrl: /^(https?:\/\/)?([\w\-]+\.)+[\w\-]+(\/\S*)?$/,
      publishDate: /^\d{4}-\d{2}-\d{2}$/
  }
  const isbnPattern = /^(97(8|9))?\d{1,5}-\d{1,7}-\d{1,7}-[\dX]{1,7}$/;
  \<close>
\<close>

definition patterns_pageCount :: regex where
  "patterns_pageCount =
     Seq (Cls (\<lambda>c. CHR ''1'' \<le> c \<and> c \<le> CHR ''9''))
         (Star (Cls (\<lambda>c. CHR ''0'' \<le> c \<and> c \<le> CHR ''9'')))"

definition patterns_coverImageUrl :: regex where
  "patterns_coverImageUrl =
     Seq (Opt (Seq (word ''http'') (Seq (Opt (Lit CHR ''s'')) (word ''://''))))
    (Seq (Plus (Seq (Plus (Cls (\<lambda>c. word_char c \<or> c = CHR ''-''))) (Lit CHR ''.'')))
    (Seq (Plus (Cls (\<lambda>c. word_char c \<or> c = CHR ''-'')))
         (Opt (Seq (Lit CHR ''/'') (Star (Cls non_space))))))"

definition patterns_publishDate :: regex where
  "patterns_publishDate =
     Seq (exactly 4 (Cls digit))
    (Seq (Lit CHR ''-'')
    (Seq (exactly 2 (Cls digit))
    (Seq (Lit CHR ''-'')
         (exactly 2 (Cls digit)))))"

definition isbnPattern :: regex where
  "isbnPattern =
     Seq (Opt (Seq (word ''97'') (Alt (Lit CHR ''8'') (Lit CHR ''9''))))
    (Seq (between 1 5 (Cls digit))
    (Seq (Lit CHR ''-'')
    (Seq (between 1 7 (Cls digit))
    (Seq (Lit CHR ''-'')
    (Seq (between 1 7 (Cls digit))
    (Seq (Lit CHR ''-'')
         (between 1 7 (Cls (\<lambda>c. digit c \<or> c = CHR ''X'')))))))))"

section \<open>Comparing a string with the number 0\<close>

text \<open>
  \<open>s > 0\<close> with a string \<open>s\<close> converts \<open>s\<close> to a number (StringToNumber) and compares
  the numbers; the comparison is false when the conversion gives NaN. \<open>numeric\<close> is the
  outcome of the conversion before rounding to a double: NaN, an infinity with its sign,
  or a sign, a mantissa \<open>m\<close> and a decimal exponent \<open>e\<close> standing for \<open>m * 10^e\<close>.

  The grammar: surrounding whitespace is dropped; the empty string is 0; \<open>0x\<close>, \<open>0o\<close>,
  \<open>0b\<close> (either case) start an unsigned hexadecimal, octal or binary integer; anything
  else is an optionally signed \<open>Infinity\<close> or decimal literal (digits, with an optional
  fraction and an optional exponent, at least one digit before or after the point).
\<close>

datatype numeric = NaN | Inf bool | Dec bool int int

definition digit_value :: "char \<Rightarrow> int" where
  "digit_value c =
     (if digit c then of_char c - 48
      else if CHR ''a'' \<le> c \<and> c \<le> CHR ''f'' then of_char c - 87
      else if CHR ''A'' \<le> c \<and> c \<le> CHR ''F'' then of_char c - 55
      else 16)"

definition radix_value :: "int \<Rightarrow> string \<Rightarrow> int" where
  "radix_value b ds = foldl (\<lambda>n c. b * n + digit_value c) 0 ds"

definition radix_literal :: "int \<Rightarrow> string \<Rightarrow> numeric" where
  "radix_literal b ds =
     (if ds \<noteq> [] \<and> list_all (\<lambda>c. digit_value c < b) ds then Dec False (radix_value b ds) 0
      else NaN)"

definition split_sign :: "string \<Rightarrow> bool \<times> string" where
  "split_sign t =
     (case t of
        [] \<Rightarrow> (False, [])
      | c # r \<Rightarrow> if c = CHR ''-'' then (True, r) else if c = CHR ''+'' then (False, r)
                else (False, t))"

definition exponent_part :: "string \<Rightarrow> int option" where
  "exponent_part r =
     (case r of
        [] \<Rightarrow> Some 0
      | c # ds \<Rightarrow>
          if c = CHR ''e'' \<or> c = CHR ''E'' then
            (let (neg, ex) = split_sign ds
             in if ex \<noteq> [] \<and> list_all digit ex
                then Some (if neg then - radix_value 10 ex else radix_value 10 ex)
                else None)
          else None)"

definition decimal_literal :: "string \<Rightarrow> numeric" where
  "decimal_literal t =
     (let (neg, body) = split_sign t
      in if body = ''Infinity'' then Inf neg
         else
           let ip = takeWhile digit body;
               r1 = dropWhile digit body;
               (fp, r2) = (case r1 of
                             [] \<Rightarrow> ([], [])
                           | c # r \<Rightarrow> if c = CHR ''.''
                                      then (takeWhile digit r, dropWhile digit r)
                                      else ([], r1))
           in if ip = [] \<and> fp = [] then NaN
              else case exponent_part r2 of
                     None \<Rightarrow> NaN
                   | Some e \<Rightarrow> Dec neg (radix_value 10 (ip @ fp)) (e - int (length fp)))"

definition StringToNumber :: "string \<Rightarrow> numeric" where
  "StringToNumber s =
     (let t = trim s
      in case t of
           [] \<Rightarrow> Dec False 0 0
         | [c] \<Rightarrow> decimal_literal t
         | c0 # c1 # ds \<Rightarrow>
             if c0 = CHR ''0'' \<and> (c1 = CHR ''x'' \<or> c1 = CHR ''X'') then radix_literal 16 ds
             else if c0 = CHR ''0'' \<and> (c1 = CHR ''o'' \<or> c1 = CHR ''O'') then radix_literal 8 ds
             else if c0 = CHR ''0'' \<and> (c1 = CHR ''b'' \<or> c1 = CHR ''B'') then radix_literal 2 ds
             else decimal_literal t)"

text \<open>
  The number is the double nearest to \<open>m * 10^e\<close>, ties to even. A positive value rounds
  to \<open>+0\<close> exactly when it is at most \<open>2^-1075\<close>, half of the least positive double, so
  the double is greater than 0 if and only if \<open>m * 10^e > 2^-1075\<close>; a value too large
  for a double rounds to \<open>+Infinity\<close>, which is greater than 0 as well.
\<close>

fun positive :: "numeric \<Rightarrow> bool" where
  "positive NaN = False"
| "positive (Inf neg) = (\<not> neg)"
| "positive (Dec neg m e) =
     (\<not> neg \<and> (if 0 \<le> e then 0 < m else 10 ^ nat (- e) < m * 2 ^ 1075))"

definition greater_than_zero :: "string \<Rightarrow> bool" where
  \<comment> \<open>\<open>s > 0\<close>\<close>
  "greater_than_zero s = positive (StringToNumber s)"

section \<open>Messages\<close>

text \<open>
  The message texts are Korean string literals, pairwise different. Each constructor of
  \<open>msg\<close> stands for one literal of the source:
  \<^item> \<open>Enter_title\<close> ... \<open>Enter_edition\<close>: the eleven texts under \<open>messages.required\<close>
    ("please enter the title", ...);
  \<^item> \<open>Format_isbn\<close> ("set the ISBN to 10-13 digits including hyphens, e.g.
    978-3-16-148410-0"), \<open>Format_coverImageUrl\<close>, \<open>Format_price\<close>, \<open>Format_pageCount\<close>:
    the four texts under \<open>messages.format\<close>;
  \<^item> \<open>Price_above_zero\<close>: the literal in \<open>validators.price\<close> ("the price must be a
    number greater than 0");
  \<^item> \<open>Book_data_needed\<close>: the literal in \<open>validateBook\<close> ("book data is required");
  \<^item> \<open>Unknown_field\<close>: the literal in \<open>validateField\<close> ("unknown field").

  \<open>messages\<close> is the nested object of the source, key by key. Reading a property that an
  object does not have gives \<open>undefined\<close>, here \<open>None\<close>.
  \<^verbatim>\<open>
  export const messages = {
      required: { title: ..., author: ..., isbn: ..., price: ..., publishDate: ...,
          detail: { description: ..., language: ..., pageCount: ..., publisher: ...,
                    coverImageUrl: ..., edition: ... } },
      format: { isbn: ..., coverImageUrl: ..., price: ..., pageCount: ... }
  }
  \<close>
\<close>

datatype msg =
    Enter_title | Enter_author | Enter_isbn | Enter_price | Enter_publishDate
  | Enter_description | Enter_language | Enter_pageCount | Enter_publisher
  | Enter_coverImageUrl | Enter_edition
  | Format_isbn | Format_coverImageUrl | Format_price | Format_pageCount
  | Price_above_zero | Book_data_needed | Unknown_field

datatype entry = Text msg | Object "(string \<times> entry) list"

definition messages :: entry where
  "messages = Object
     [(''required'', Object
         [(''title'', Text Enter_title),
          (''author'', Text Enter_author),
          (''isbn'', Text Enter_isbn),
          (''price'', Text Enter_price),
          (''publishDate'', Text Enter_publishDate),
          (''detail'', Object
             [(''description'', Text Enter_description),
              (''language'', Text Enter_language),
              (''pageCount'', Text Enter_pageCount),
              (''publisher'', Text Enter_publisher),
              (''coverImageUrl'', Text Enter_coverImageUrl),
              (''edition'', Text Enter_edition)])]),
      (''format'', Object
         [(''isbn'', Text Format_isbn),
          (''coverImageUrl'', Text Format_coverImageUrl),
          (''price'', Text Format_price),
          (''pageCount'', Text Format_pageCount)])]"

fun property :: "entry \<Rightarrow> string \<Rightarrow> entry option" where
  "property (Object kvs) k = map_of kvs k"
| "property (Text m) k = None"

fun text_of :: "entry option \<Rightarrow> msg option" where
  "text_of (Some (Text m)) = Some m"
| "text_of _ = None"

definition messages_required :: "string \<Rightarrow> msg option" where
  \<comment> \<open>\<open>messages.required.k\<close>\<close>
  "messages_required k =
     (case property messages ''required'' of
        None \<Rightarrow> None
      | Some required \<Rightarrow> text_of (property required k))"

definition messages_format :: "string \<Rightarrow> msg option" where
  \<comment> \<open>\<open>messages.format.k\<close>\<close>
  "messages_format k =
     (case property messages ''format'' of
        None \<Rightarrow> None
      | Some format \<Rightarrow> text_of (property format k))"

section \<open>The field validators\<close>

text \<open>
  A validation result is the object \<open>{ isValid, message, field }\<close>; a property that is
  missing or \<open>undefined\<close> is \<open>None\<close>.
\<close>

record validation_result =
  isValid :: bool
  message :: "msg option"
  field :: "string option"

definition valid :: validation_result where
  \<comment> \<open>\<open>{ isValid: true }\<close>\<close>
  "valid = \<lparr>isValid = True, message = None, field = None\<rparr>"

definition invalid :: "msg option \<Rightarrow> string \<Rightarrow> validation_result" where
  \<comment> \<open>\<open>{ isValid: false, message: m, field: f }\<close>\<close>
  "invalid m f = \<lparr>isValid = False, message = m, field = Some f\<rparr>"

text \<open>
  Each validator is an arrow function of the source, \<^verbatim>\<open>title: (title) => { ... }\<close>, here
  a \<open>\<lambda>\<close> with the parameter's name.
\<close>

definition validators_title :: "helpers \<Rightarrow> js_value \<Rightarrow> validation_result" where
  "validators_title h =
     (\<lambda>title.
        if isEmpty h title then invalid (messages_required ''title'') ''title''
        else valid)"

definition validators_isbn :: "helpers \<Rightarrow> js_value \<Rightarrow> validation_result" where
  "validators_isbn h =
     (\<lambda>isbn.
        if isEmpty h isbn then invalid (messages_required ''isbn'') ''isbn''
        else if \<not> test isbnPattern (safeTrim h isbn)
        then invalid (messages_format ''isbn'') ''isbn''
        else valid)"

definition validators_author :: "helpers \<Rightarrow> js_value \<Rightarrow> validation_result" where
  "validators_author h =
     (\<lambda>author.
        if isEmpty h author then invalid (messages_required ''author'') ''author''
        else valid)"

definition validators_coverImageUrl :: "helpers \<Rightarrow> js_value \<Rightarrow> validation_result" where
  "validators_coverImageUrl h =
     (\<lambda>coverImageUrl.
        if isEmpty h coverImageUrl
        then invalid (messages_required ''coverImageUrl'') ''coverImageUrl''
        else if \<not> test patterns_coverImageUrl (safeTrim h coverImageUrl)
        then invalid (messages_format ''coverImageUrl'') ''coverImageUrl''
        else valid)"

definition validators_price :: "helpers \<Rightarrow> js_value \<Rightarrow> validation_result" where
  "validators_price h =
     (\<lambda>price.
        if isEmpty h price then invalid (messages_required ''price'') ''price''
        else if greater_than_zero (safeTrim h price)
        then invalid (Some Price_above_zero) ''price''
        else valid)"

definition validators_pageCount :: "helpers \<Rightarrow> js_value \<Rightarrow> validation_result" where
  "validators_pageCount h =
     (\<lambda>pageCount.
        if isEmpty h pageCount then invalid (messages_required ''pageCount'') ''pageCount''
        else if \<not> test patterns_pageCount (safeTrim h pageCount)
        then invalid (messages_format ''pageCount'') ''pageCount''
        else valid)"

definition validators_publishDate :: "helpers \<Rightarrow> js_value \<Rightarrow> validation_result" where
  "validators_publishDate h =
     (\<lambda>publishDate.
        if isEmpty h publishDate
        then invalid (messages_required ''publishDate'') ''publishDate''
        else if \<not> test patterns_publishDate (safeTrim h publishDate)
        then invalid (messages_format ''publishDate'') ''publishDate''
        else valid)"

definition validators_detail :: "helpers \<Rightarrow> js_value \<Rightarrow> validation_result" where
  "validators_detail h =
     (\<lambda>detail.
        if isEmpty h detail then invalid (messages_required ''publishDate'') ''publishDate''
        else valid)"

definition validators ::
  "helpers \<Rightarrow> (string \<times> (js_value \<Rightarrow> validation_result)) list" where
  "validators h =
     [(''title'', validators_title h),
      (''isbn'', validators_isbn h),
      (''author'', validators_author h),
      (''coverImageUrl'', validators_coverImageUrl h),
      (''price'', validators_price h),
      (''pageCount'', validators_pageCount h),
      (''publishDate'', validators_publishDate h),
      (''detail'', validators_detail h)]"

section \<open>Validating a whole book\<close>

text \<open>
  A book is the object the form handler builds: the properties \<open>validateBook\<close> takes out
  of it, and the nested detail record, which may be absent. An absent (falsy) book or
  detail is \<open>None\<close>.
\<close>

record book =
  title :: js_value
  author :: js_value
  isbn :: js_value
  coverImageUrl :: js_value
  price :: js_value
  pageCount :: js_value
  publishDate :: js_value
  detail :: "book_detail option"

definition validateBook :: "helpers \<Rightarrow> book option \<Rightarrow> validation_result" where
  "validateBook h book =
     (case book of
        None \<Rightarrow> \<lparr>isValid = False, message = Some Book_data_needed, field = None\<rparr>
      | Some b \<Rightarrow>
          let titleResult = validators_title h (title b) in
          if \<not> isValid titleResult then titleResult
          else
            let authorResult = validators_author h (author b) in
            if \<not> isValid authorResult then authorResult
            else
              (case detail b of
                 None \<Rightarrow> valid
               | Some d \<Rightarrow>
                   let pageCountResult = validators_pageCount h (book_detail.pageCount d) in
                   if \<not> isValid pageCountResult then pageCountResult
                   else
                     let coverImageUrlResult =
                           validators_coverImageUrl h (book_detail.coverImageUrl d) in
                     if \<not> isValid coverImageUrlResult then coverImageUrlResult
                     else valid))"

section \<open>Validating one field by name\<close>

text \<open>
  \<open>validators[fieldName]\<close> reads a property of an object literal: an own property if
  there is one, otherwise the property of that name inherited from \<open>Object.prototype\<close>,
  otherwise \<open>undefined\<close>. \<open>Object_prototype\<close> lists the inherited names with what each
  does when \<open>validateField\<close> calls it as \<open>validator(value)\<close>, a plain call in module
  (strict) code, so with \<open>this\<close> undefined:
  \<^item> \<open>constructor\<close> is \<open>Object\<close>, which returns an object (a new one, the string
    wrapped, or the record itself);
  \<^item> \<open>toString\<close> returns the string \<open>[object Undefined]\<close>;
  \<^item> \<open>isPrototypeOf\<close> returns \<open>false\<close> when its argument is not an object, and
    otherwise converts \<open>this\<close> to an object, which throws a TypeError;
  \<^item> \<open>__proto__\<close> is the prototype object itself, which is truthy and not callable;
  \<^item> the others start by converting \<open>this\<close> to an object, which throws a TypeError.
\<close>

datatype inherited =
    Returns_object
  | Returns_string string
  | False_unless_object
  | Needs_this
  | Not_callable

definition Object_prototype :: "(string \<times> inherited) list" where
  "Object_prototype =
     [(''constructor'', Returns_object),
      (''toString'', Returns_string ''[object Undefined]''),
      (''isPrototypeOf'', False_unless_object),
      (''hasOwnProperty'', Needs_this),
      (''propertyIsEnumerable'', Needs_this),
      (''toLocaleString'', Needs_this),
      (''valueOf'', Needs_this),
      (''__defineGetter__'', Needs_this),
      (''__defineSetter__'', Needs_this),
      (''__lookupGetter__'', Needs_this),
      (''__lookupSetter__'', Needs_this),
      (''__proto__'', Not_callable)]"

text \<open>
  What a call of \<open>validateField\<close> ends with: a validation result, a value of another
  kind (an object without the three properties, a string, a boolean), or a TypeError.
\<close>

datatype outcome =
    Result validation_result
  | An_object
  | A_string string
  | A_boolean bool
  | TypeError

fun call_inherited :: "inherited \<Rightarrow> js_value \<Rightarrow> outcome" where
  "call_inherited Returns_object v = An_object"
| "call_inherited (Returns_string s) v = A_string s"
| "call_inherited False_unless_object v =
     (case v of Detail d \<Rightarrow> TypeError | _ \<Rightarrow> A_boolean False)"
| "call_inherited Needs_this v = TypeError"
| "call_inherited Not_callable v = TypeError"

definition validateField :: "helpers \<Rightarrow> string \<Rightarrow> js_value \<Rightarrow> outcome" where
  "validateField h fieldName v =
     (case map_of (validators h) fieldName of
        Some validator \<Rightarrow> Result (validator v)
      | None \<Rightarrow>
          (case map_of Object_prototype fieldName of
             Some f \<Rightarrow> call_inherited f v
           | None \<Rightarrow> Result \<lparr>isValid = True, message = Some Unknown_field, field = None\<rparr>))"

section \<open>Sample inputs\<close>

text \<open>
  \<open>blank_title_book\<close> has a title of spaces only (and nothing else in order);
  \<open>blank_author_book\<close> a title and an author of spaces only (and a bad detail);
  \<open>book_without_detail\<close> a title and an author, no detail, and an ISBN, a price and a date
  that no pattern accepts; \<open>book_with_empty_pageCount\<close> a title, an author and
  \<open>empty_form_detail\<close>, the detail record the form handler builds from six empty inputs.
  The arguments of \<open>Book_detail\<close> are the description, the language, the page count, the
  publisher, the cover image URL and the edition.

  \<open>strict_helpers\<close> is one possible pair of answers of the helpers on a record: no
  record is empty, and a record reads as the string \<open>[object Object]\<close>.
\<close>

definition bad_detail :: book_detail where
  "bad_detail = Book_detail Absent Absent (Str ''many'') Absent (Str ''no url'') Absent"

definition empty_form_detail :: book_detail where
  "empty_form_detail = Book_detail (Str []) (Str []) (Str []) (Str []) (Str []) (Str [])"

definition blank_title_book :: book where
  "blank_title_book =
     \<lparr>title = Str ''   '', author = Absent, isbn = Absent, coverImageUrl = Absent,
      price = Absent, pageCount = Absent, publishDate = Absent, detail = Some bad_detail\<rparr>"

definition blank_author_book :: book where
  "blank_author_book =
     \<lparr>title = Str ''Dune'', author = Str '' '', isbn = Absent, coverImageUrl = Absent,
      price = Absent, pageCount = Absent, publishDate = Absent, detail = Some bad_detail\<rparr>"

definition book_without_detail :: book where
  "book_without_detail =
     \<lparr>title = Str ''Dune'', author = Str ''Frank Herbert'', isbn = Str ''1234'',
      coverImageUrl = Absent, price = Str ''free'', pageCount = Absent,
      publishDate = Str ''2024/01/15'', detail = None\<rparr>"

definition book_with_empty_pageCount :: book where
  "book_with_empty_pageCount =
     \<lparr>title = Str ''Dune'', author = Str ''Frank Herbert'', isbn = Str ''0-441-17271-7'',
      coverImageUrl = Absent, price = Str ''0'', pageCount = Absent,
      publishDate = Str ''1965-08-01'', detail = Some empty_form_detail\<rparr>"

definition strict_helpers :: helpers where
  "strict_helpers =
     \<lparr>isEmpty_object = (\<lambda>d. False), safeTrim_object = (\<lambda>d. ''[object Object]'')\<rparr>"

section \<open>Facts about the helpers and the message table\<close>

lemma messages_required_values:
  "messages_required ''title'' = Some Enter_title"
  "messages_required ''author'' = Some Enter_author"
  "messages_required ''isbn'' = Some Enter_isbn"
  "messages_required ''price'' = Some Enter_price"
  "messages_required ''publishDate'' = Some Enter_publishDate"
  "messages_required ''pageCount'' = None"
  "messages_required ''coverImageUrl'' = None"
  by (simp_all add: messages_required_def messages_def)

lemma messages_format_values:
  "messages_format ''isbn'' = Some Format_isbn"
  "messages_format ''coverImageUrl'' = Some Format_coverImageUrl"
  "messages_format ''price'' = Some Format_price"
  "messages_format ''pageCount'' = Some Format_pageCount"
  "messages_format ''publishDate'' = None"
  by (simp_all add: messages_format_def messages_def)

lemma trim_keeps_head:
  assumes "\<not> white_space c"
  shows "\<exists>r. trim (c # s) = c # r"
proof -
  have 1: "dropWhile white_space (c # s) = c # s"
    using assms by simp
  have "\<exists>r. dropWhile white_space (rev s @ [c]) = r @ [c]"
    using assms by (cases "\<forall>x\<in>set (rev s). white_space x") (auto simp: dropWhile_append)
  then obtain r where 2: "dropWhile white_space (rev s @ [c]) = r @ [c]" ..
  have "trim (c # s) = c # rev r"
    unfolding trim_def 1 by (simp add: 2)
  then show ?thesis ..
qed

lemma minus_not_white_space: "\<not> white_space CHR ''-''"
  by (simp add: white_space_def)

section \<open>What the patterns accept\<close>

lemma nullable_lang: "nullable r \<longleftrightarrow> [] \<in> lang r"
  by (induction r) (auto intro: star_empty)

lemma star_cons_split:
  assumes "w \<in> star L" and "w = c # s"
  shows "\<exists>u v. s = u @ v \<and> c # u \<in> L \<and> v \<in> star L"
  using assms
proof (induction rule: star.induct)
  case star_empty
  then show ?case by simp
next
  case (star_more u v)
  show ?case
  proof (cases u)
    case Nil
    with star_more show ?thesis by simp
  next
    case (Cons a u')
    with star_more have "s = u' @ v" and "c # u' \<in> L" by auto
    with star_more.hyps(2) show ?thesis by blast
  qed
qed

lemma star_cons: "c # s \<in> star L \<longleftrightarrow> (\<exists>u v. s = u @ v \<and> c # u \<in> L \<and> v \<in> star L)"
proof
  assume "c # s \<in> star L"
  then show "\<exists>u v. s = u @ v \<and> c # u \<in> L \<and> v \<in> star L"
    by (rule star_cons_split) simp
next
  assume "\<exists>u v. s = u @ v \<and> c # u \<in> L \<and> v \<in> star L"
  then obtain u v where "s = u @ v" "c # u \<in> L" "v \<in> star L" by blast
  then show "c # s \<in> star L"
    using star_more [of "c # u" L v] by simp
qed

lemma deriv_lang: "s \<in> lang (deriv c r) \<longleftrightarrow> c # s \<in> lang r"
proof (induction r arbitrary: s)
  case (Seq r1 r2)
  then show ?case
    by (auto simp: nullable_lang Cons_eq_append_conv)
next
  case (Star r)
  then show ?case
    by (auto simp: star_cons)
qed auto

lemma derivs_lang: "t \<in> lang (derivs s r) \<longleftrightarrow> s @ t \<in> lang r"
  by (induction s arbitrary: r) (simp_all add: deriv_lang)

lemma test_lang: "test r s \<longleftrightarrow> s \<in> lang r"
  by (simp add: test_def nullable_lang derivs_lang)

lemma lang_Lit: "lang (Lit c) = {[c]}"
  by (auto simp: Lit_def)

lemma lang_Opt: "lang (Opt r) = insert [] (lang r)"
  by (auto simp: Opt_def)

lemma in_lang_Seq: "w \<in> lang (Seq r s) \<longleftrightarrow> (\<exists>u v. w = u @ v \<and> u \<in> lang r \<and> v \<in> lang s)"
  by simp

lemma in_lang_Cls: "w \<in> lang (Cls p) \<longleftrightarrow> (\<exists>c. w = [c] \<and> p c)"
  by simp

lemma in_lang_Cls_Seq: "w \<in> lang (Seq (Cls p) r) \<longleftrightarrow> (\<exists>c t. w = c # t \<and> p c \<and> t \<in> lang r)"
proof
  assume "w \<in> lang (Seq (Cls p) r)"
  then obtain u v c where "w = u @ v" "u = [c]" "p c" "v \<in> lang r"
    unfolding in_lang_Seq in_lang_Cls by blast
  then show "\<exists>c t. w = c # t \<and> p c \<and> t \<in> lang r"
    by simp
next
  assume "\<exists>c t. w = c # t \<and> p c \<and> t \<in> lang r"
  then obtain c t where "w = [c] @ t" "p c" "t \<in> lang r"
    by auto
  then show "w \<in> lang (Seq (Cls p) r)"
    unfolding in_lang_Seq in_lang_Cls by blast
qed

lemma in_lang_exactly: "s \<in> lang (exactly n (Cls p)) \<longleftrightarrow> length s = n \<and> list_all p s"
proof (induction n arbitrary: s)
  case 0
  show ?case by auto
next
  case (Suc n)
  show ?case
    unfolding exactly.simps in_lang_Cls_Seq Suc by (cases s) auto
qed

lemma in_lang_at_most: "s \<in> lang (at_most n (Cls p)) \<longleftrightarrow> length s \<le> n \<and> list_all p s"
proof (induction n arbitrary: s)
  case 0
  show ?case by auto
next
  case (Suc n)
  have "s \<in> lang (at_most (Suc n) (Cls p)) \<longleftrightarrow>
          s = [] \<or> (\<exists>c t. s = c # t \<and> p c \<and> length t \<le> n \<and> list_all p t)"
    unfolding at_most.simps lang_Opt insert_iff in_lang_Cls_Seq Suc ..
  also have "\<dots> \<longleftrightarrow> length s \<le> Suc n \<and> list_all p s"
    by (cases s) auto
  finally show ?case .
qed

lemma in_lang_between:
  assumes "lo \<le> hi"
  shows "s \<in> lang (between lo hi (Cls p)) \<longleftrightarrow> lo \<le> length s \<and> length s \<le> hi \<and> list_all p s"
proof
  assume "s \<in> lang (between lo hi (Cls p))"
  then obtain u v where "s = u @ v" "length u = lo" "list_all p u" "length v \<le> hi - lo"
      "list_all p v"
    unfolding between_def in_lang_Seq in_lang_exactly in_lang_at_most by blast
  then show "lo \<le> length s \<and> length s \<le> hi \<and> list_all p s"
    using assms by auto
next
  assume a: "lo \<le> length s \<and> length s \<le> hi \<and> list_all p s"
  have "s = take lo s @ drop lo s"
    by simp
  moreover have "length (take lo s) = lo \<and> list_all p (take lo s)"
    using a by (auto simp: list_all_iff dest: in_set_takeD)
  moreover have "length (drop lo s) \<le> hi - lo \<and> list_all p (drop lo s)"
    using a by (auto simp: list_all_iff dest: in_set_dropD)
  ultimately show "s \<in> lang (between lo hi (Cls p))"
    unfolding between_def in_lang_Seq in_lang_exactly in_lang_at_most by blast
qed

lemma star_singletons: "s \<in> star {[c] | c. p c} \<longleftrightarrow> list_all p s"
proof (induction s)
  case Nil
  then show ?case by (simp add: star_empty)
next
  case (Cons a s)
  then show ?case by (auto simp: star_cons)
qed

lemma pageCount_pattern:
  "test patterns_pageCount s \<longleftrightarrow>
     (\<exists>c cs. s = c # cs \<and> CHR ''1'' \<le> c \<and> c \<le> CHR ''9'' \<and> list_all digit cs)"
proof -
  have d: "(\<lambda>c. CHR ''0'' \<le> c \<and> c \<le> CHR ''9'') = digit"
    by (simp add: digit_def fun_eq_iff)
  show ?thesis
    unfolding test_lang patterns_pageCount_def d in_lang_Cls_Seq lang.simps(6) lang.simps(3)
      star_singletons by blast
qed

lemma publishDate_pattern:
  "test patterns_publishDate s \<longleftrightarrow>
     (\<exists>y m d. s = y @ ''-'' @ m @ ''-'' @ d \<and> length y = 4 \<and> length m = 2 \<and> length d = 2
        \<and> list_all digit y \<and> list_all digit m \<and> list_all digit d)"
proof
  assume "test patterns_publishDate s"
  then obtain y r1 where 1: "s = y @ r1" "length y = 4 \<and> list_all digit y"
    and "r1 \<in> lang (Seq (Lit CHR ''-'') (Seq (exactly 2 (Cls digit))
              (Seq (Lit CHR ''-'') (exactly 2 (Cls digit)))))"
    unfolding test_lang patterns_publishDate_def in_lang_Seq [of s] in_lang_exactly by blast
  then obtain r2 where 2: "r1 = ''-'' @ r2"
    and "r2 \<in> lang (Seq (exactly 2 (Cls digit)) (Seq (Lit CHR ''-'') (exactly 2 (Cls digit))))"
    unfolding in_lang_Seq [of r1] lang_Lit by blast
  then obtain m r3 where 3: "r2 = m @ r3" "length m = 2 \<and> list_all digit m"
    and "r3 \<in> lang (Seq (Lit CHR ''-'') (exactly 2 (Cls digit)))"
    unfolding in_lang_Seq [of r2] in_lang_exactly by blast
  then obtain d where 4: "r3 = ''-'' @ d" "length d = 2 \<and> list_all digit d"
    unfolding in_lang_Seq [of r3] lang_Lit in_lang_exactly by blast
  have "s = y @ ''-'' @ m @ ''-'' @ d"
    unfolding 1 2 3 4 ..
  with 1 3 4 show "\<exists>y m d. s = y @ ''-'' @ m @ ''-'' @ d \<and> length y = 4 \<and> length m = 2
      \<and> length d = 2 \<and> list_all digit y \<and> list_all digit m \<and> list_all digit d"
    by blast
next
  assume "\<exists>y m d. s = y @ ''-'' @ m @ ''-'' @ d \<and> length y = 4 \<and> length m = 2
      \<and> length d = 2 \<and> list_all digit y \<and> list_all digit m \<and> list_all digit d"
  then obtain y m d where s: "s = y @ ''-'' @ m @ ''-'' @ d"
    and y: "y \<in> lang (exactly 4 (Cls digit))"
    and m: "m \<in> lang (exactly 2 (Cls digit))"
    and d: "d \<in> lang (exactly 2 (Cls digit))"
    unfolding in_lang_exactly by blast
  have h: "''-'' \<in> lang (Lit CHR ''-'')"
    by (simp add: lang_Lit)
  have "''-'' @ d \<in> lang (Seq (Lit CHR ''-'') (exactly 2 (Cls digit)))"
    unfolding in_lang_Seq using h d by blast
  with m have "m @ ''-'' @ d \<in> lang (Seq (exactly 2 (Cls digit))
      (Seq (Lit CHR ''-'') (exactly 2 (Cls digit))))"
    unfolding in_lang_Seq [of "m @ ''-'' @ d"] by blast
  with h have "''-'' @ m @ ''-'' @ d \<in> lang (Seq (Lit CHR ''-'') (Seq (exactly 2 (Cls digit))
      (Seq (Lit CHR ''-'') (exactly 2 (Cls digit)))))"
    unfolding in_lang_Seq [of "''-'' @ m @ ''-'' @ d"] by blast
  with y have "y @ ''-'' @ m @ ''-'' @ d \<in> lang patterns_publishDate"
    unfolding patterns_publishDate_def in_lang_Seq [of "y @ ''-'' @ m @ ''-'' @ d"] by blast
  then show "test patterns_publishDate s"
    unfolding test_lang s .
qed

lemma no_hyphen_in_group:
  assumes "list_all p g" and "\<not> p CHR ''-''"
  shows "filter (\<lambda>c. c = CHR ''-'') g = []"
  using assms by (induction g) auto

lemma isbn_prefix: "w \<in> lang (Opt (Seq (word ''97'') (Alt (Lit CHR ''8'') (Lit CHR ''9'')))) \<Longrightarrow>
    filter (\<lambda>c. c = CHR ''-'') w = []"
  by (auto simp: lang_Opt lang_Lit)

lemma isbnPattern_three_hyphens:
  assumes "test isbnPattern s"
  shows "length (filter (\<lambda>c. c = CHR ''-'') s) = 3"
proof -
  let ?h = "Lit CHR ''-''"
  let ?d = "between 1 7 (Cls digit)"
  let ?x = "between 1 7 (Cls (\<lambda>c. digit c \<or> c = CHR ''X''))"
  let ?t3 = "Seq ?d (Seq ?h ?x)"
  let ?t2 = "Seq ?d (Seq ?h ?t3)"
  let ?t1 = "Seq (between 1 5 (Cls digit)) (Seq ?h ?t2)"
  have nd: "\<not> digit CHR ''-''" "\<not> (digit CHR ''-'' \<or> CHR ''-'' = CHR ''X'')"
    by (simp_all add: digit_def)
  have step: "\<exists>g r. w = g @ ''-'' @ r \<and> list_all p g \<and> r \<in> lang t"
    if "w \<in> lang (Seq (between lo hi (Cls p)) (Seq ?h t))" and "lo \<le> hi" for w lo hi p t
  proof -
    from that(1) obtain g v where "w = g @ v" "g \<in> lang (between lo hi (Cls p))"
        "v \<in> lang (Seq ?h t)"
      unfolding in_lang_Seq [of w] by blast
    moreover from this obtain r where "v = ''-'' @ r" "r \<in> lang t"
      unfolding in_lang_Seq [of v] lang_Lit by blast
    ultimately show ?thesis
      using that(2) by (auto simp: in_lang_between)
  qed
  have le: "(1::nat) \<le> 5" "(1::nat) \<le> 7"
    by simp_all
  from assms obtain pre r1 where 1: "s = pre @ r1"
    and p: "filter (\<lambda>c. c = CHR ''-'') pre = []" and r1: "r1 \<in> lang ?t1"
    unfolding test_lang isbnPattern_def in_lang_Seq [of s] using isbn_prefix by blast
  from step [OF r1 le(1)] obtain g1 r2 where 2: "r1 = g1 @ ''-'' @ r2" and g1: "list_all digit g1"
    and r2: "r2 \<in> lang ?t2"
    by blast
  from step [OF r2 le(2)] obtain g2 r3 where 3: "r2 = g2 @ ''-'' @ r3" and g2: "list_all digit g2"
    and r3: "r3 \<in> lang ?t3"
    by blast
  from step [OF r3 le(2)] obtain g3 g4 where 4: "r3 = g3 @ ''-'' @ g4" and g3: "list_all digit g3"
    and "g4 \<in> lang ?x"
    by blast
  then have g4: "list_all (\<lambda>c. digit c \<or> c = CHR ''X'') g4"
    by (simp add: in_lang_between)
  show ?thesis
    unfolding 1 2 3 4
    using p no_hyphen_in_group [OF g1 nd(1)] no_hyphen_in_group [OF g2 nd(1)]
      no_hyphen_in_group [OF g3 nd(1)] no_hyphen_in_group [OF g4 nd(2)]
    by simp
qed

section \<open>The price check\<close>

lemma decimal_literal_minus: "\<not> positive (decimal_literal (CHR ''-'' # r))"
  by (auto simp: decimal_literal_def split_sign_def Let_def
      split: option.splits list.splits prod.splits)

lemma minus_not_greater_than_zero: "\<not> greater_than_zero (CHR ''-'' # r)"
proof -
  obtain t where t: "trim (CHR ''-'' # r) = CHR ''-'' # t"
    using trim_keeps_head [OF minus_not_white_space] by blast
  show ?thesis
    unfolding greater_than_zero_def StringToNumber_def Let_def t
    by (cases t) (simp_all add: decimal_literal_minus)
qed

lemma price_rejects_what_is_above_zero:
  "\<not> isEmpty h v \<Longrightarrow> greater_than_zero (safeTrim h v) \<Longrightarrow>
     validators_price h v =
       \<lparr>isValid = False, message = Some Price_above_zero, field = Some ''price''\<rparr>"
  by (simp add: validators_price_def invalid_def)

text \<open>
  C1. The claim: the "greater than zero" branch of \<open>validators.price\<close> is unreachable, so
  every ordinary positive numeric string passes. The code at the price \<open>10000\<close> (the
  example of the price format message): \<open>'10000' > 0\<close> converts the string to the number
  10000, the comparison is true, the branch is taken, and the validator returns
  \<open>isValid: false\<close> with the message that the price must be greater than 0.
\<close>

theorem price_rejects_10000:
  "validators_price h (Str ''10000'') =
     \<lparr>isValid = False, message = Some Price_above_zero, field = Some ''price''\<rparr>"
  by code_simp

text \<open>
  C10. Every non-empty price whose trimmed string does not compare greater than 0 passes
  \<open>validators.price\<close>: in particular the non-numeric \<open>abc\<close>, the string \<open>0\<close>, and every
  string that starts with a minus sign (a negative number, or not a number at all).
\<close>

theorem price_passes_unless_above_zero:
  "(\<not> isEmpty h v \<and> \<not> greater_than_zero (safeTrim h v) \<longrightarrow> validators_price h v = valid)
   \<and> validators_price h (Str ''abc'') = valid
   \<and> validators_price h (Str ''0'') = valid
   \<and> validators_price h (Str (CHR ''-'' # s)) = valid"
proof (intro conjI)
  show "\<not> isEmpty h v \<and> \<not> greater_than_zero (safeTrim h v) \<longrightarrow> validators_price h v = valid"
    by (simp add: validators_price_def)
  show "validators_price h (Str ''abc'') = valid"
    by code_simp
  show "validators_price h (Str ''0'') = valid"
    by code_simp
  obtain t where t: "trim (CHR ''-'' # s) = CHR ''-'' # t"
    using trim_keeps_head [OF minus_not_white_space] by blast
  show "validators_price h (Str (CHR ''-'' # s)) = valid"
    by (simp add: validators_price_def isEmpty_def safeTrim_def t minus_not_greater_than_zero)
qed

theorem price_passes_unless_above_zero_witness:
  "\<not> isEmpty strict_helpers (Str '' -12.50 '')
   \<and> \<not> greater_than_zero (safeTrim strict_helpers (Str '' -12.50 ''))
   \<and> validators_price strict_helpers (Str '' -12.50 '') = valid"
proof -
  have hyp: "\<not> isEmpty strict_helpers (Str '' -12.50 '')
      \<and> \<not> greater_than_zero (safeTrim strict_helpers (Str '' -12.50 ''))"
    by code_simp
  with price_passes_unless_above_zero [where h = strict_helpers and v = "Str '' -12.50 ''"]
  show ?thesis
    by blast
qed

section \<open>Validating a whole book: title, author, detail\<close>

text \<open>
  C3. For every book with a non-empty title and author (after trimming) and no detail
  object, \<open>validateBook\<close> returns \<open>{ isValid: true }\<close> whatever the ISBN, the price and
  the publication date are: it calls no validator on them.
\<close>

theorem validateBook_without_detail:
  assumes "\<not> isEmpty h (title b)" and "\<not> isEmpty h (author b)" and "detail b = None"
  shows "validateBook h (Some (b\<lparr>isbn := i, price := p, publishDate := d\<rparr>)) =
           \<lparr>isValid = True, message = None, field = None\<rparr>"
  using assms
  by (simp add: validateBook_def validators_title_def validators_author_def valid_def)

theorem validateBook_without_detail_witness:
  "\<not> isEmpty strict_helpers (title book_without_detail)
   \<and> \<not> isEmpty strict_helpers (author book_without_detail)
   \<and> detail book_without_detail = None
   \<and> validateBook strict_helpers (Some book_without_detail) =
        \<lparr>isValid = True, message = None, field = None\<rparr>"
proof -
  have 1: "\<not> isEmpty strict_helpers (title book_without_detail)" by code_simp
  have 2: "\<not> isEmpty strict_helpers (author book_without_detail)" by code_simp
  have 3: "detail book_without_detail = None" by code_simp
  have 4: "book_without_detail\<lparr>isbn := Str ''1234'', price := Str ''free'',
             publishDate := Str ''2024/01/15''\<rparr> = book_without_detail"
    by (simp add: book_without_detail_def)
  from validateBook_without_detail
         [OF 1 2 3, where i = "Str ''1234''" and p = "Str ''free''"
            and d = "Str ''2024/01/15''"]
  show ?thesis
    unfolding 4 using 1 2 3 by simp
qed

text \<open>
  C4. \<open>validateBook\<close> checks the title, then the author, and returns at the first
  failure. A book whose title is empty or whitespace only gets \<open>isValid: false\<close> with
  the title's required message and the field \<open>title\<close>, whatever its author and detail
  are; a book with a title whose author is empty or whitespace only gets the author's
  required message and the field \<open>author\<close>, whatever its detail is.
\<close>

theorem validateBook_title_then_author:
  "(isEmpty h (title b) \<longrightarrow>
      validateBook h (Some (b\<lparr>author := a, detail := d\<rparr>)) =
        \<lparr>isValid = False, message = Some Enter_title, field = Some ''title''\<rparr>)
   \<and> (\<not> isEmpty h (title b) \<and> isEmpty h (author b) \<longrightarrow>
      validateBook h (Some (b\<lparr>detail := d\<rparr>)) =
        \<lparr>isValid = False, message = Some Enter_author, field = Some ''author''\<rparr>)"
  by (simp add: validateBook_def validators_title_def validators_author_def invalid_def
      valid_def messages_required_values)

theorem validateBook_title_then_author_witness:
  "isEmpty strict_helpers (title blank_title_book)
   \<and> validateBook strict_helpers (Some blank_title_book) =
        \<lparr>isValid = False, message = Some Enter_title, field = Some ''title''\<rparr>
   \<and> \<not> isEmpty strict_helpers (title blank_author_book)
   \<and> isEmpty strict_helpers (author blank_author_book)
   \<and> validateBook strict_helpers (Some blank_author_book) =
        \<lparr>isValid = False, message = Some Enter_author, field = Some ''author''\<rparr>"
proof -
  have 1: "isEmpty strict_helpers (title blank_title_book)" by code_simp
  have 2: "\<not> isEmpty strict_helpers (title blank_author_book)
      \<and> isEmpty strict_helpers (author blank_author_book)"
    by code_simp
  have 3: "blank_title_book\<lparr>author := Absent, detail := Some bad_detail\<rparr> = blank_title_book"
    by (simp add: blank_title_book_def)
  have 4: "blank_author_book\<lparr>detail := Some bad_detail\<rparr> = blank_author_book"
    by (simp add: blank_author_book_def)
  from validateBook_title_then_author
         [where h = strict_helpers and b = blank_title_book and a = Absent
            and d = "Some bad_detail"]
       validateBook_title_then_author
         [where h = strict_helpers and b = blank_author_book and a = Absent
            and d = "Some bad_detail"]
  show ?thesis
    unfolding 3 4 using 1 2 by blast
qed

text \<open>
  With a title, an author and a detail object, the result is that of the page count
  check if it fails, else that of the cover image check if it fails, else a pass. A page
  count that is not empty and fails the pattern gets the format message; an empty one
  gets no message, since \<open>messages.required\<close> has no \<open>pageCount\<close> (the text is under
  \<open>messages.required.detail\<close>).
\<close>

lemma validateBook_detail_checks:
  assumes "\<not> isEmpty h (title b)" and "\<not> isEmpty h (author b)" and "detail b = Some d"
  shows "validateBook h (Some b) =
           (if \<not> isValid (validators_pageCount h (book_detail.pageCount d))
            then validators_pageCount h (book_detail.pageCount d)
            else if \<not> isValid (validators_coverImageUrl h (book_detail.coverImageUrl d))
            then validators_coverImageUrl h (book_detail.coverImageUrl d)
            else \<lparr>isValid = True, message = None, field = None\<rparr>)"
  using assms
  by (simp add: validateBook_def validators_title_def validators_author_def valid_def Let_def)

lemma validateBook_pageCount_format:
  assumes "\<not> isEmpty h (title b)" and "\<not> isEmpty h (author b)" and "detail b = Some d"
    and "\<not> isEmpty h (book_detail.pageCount d)"
    and "\<not> test patterns_pageCount (safeTrim h (book_detail.pageCount d))"
  shows "validateBook h (Some b) =
           \<lparr>isValid = False, message = Some Format_pageCount, field = Some ''pageCount''\<rparr>"
  using assms
  by (simp add: validateBook_detail_checks validators_pageCount_def invalid_def
      messages_format_values)

lemma validateBook_pageCount_empty:
  assumes "\<not> isEmpty h (title b)" and "\<not> isEmpty h (author b)" and "detail b = Some d"
    and "isEmpty h (book_detail.pageCount d)"
  shows "validateBook h (Some b) =
           \<lparr>isValid = False, message = None, field = Some ''pageCount''\<rparr>"
  using assms
  by (simp add: validateBook_detail_checks validators_pageCount_def invalid_def
      messages_required_values)

text \<open>
  C5. The claim: with a valid title and author and a detail object, a page count that is
  empty or fails the pattern makes \<open>validateBook\<close> return \<open>isValid: false\<close> with the
  message for the page count and the field \<open>pageCount\<close>. The code on a book whose
  detail has the empty page count: the result has the field \<open>pageCount\<close> and no message
  (\<open>messages.required.pageCount\<close> is \<open>undefined\<close>).
\<close>

theorem empty_pageCount_has_no_message:
  "validateBook h (Some book_with_empty_pageCount) =
     \<lparr>isValid = False, message = None, field = Some ''pageCount''\<rparr>"
  by code_simp

section \<open>The shape of the results\<close>

text \<open>
  A failure of \<open>validateBook\<close> has no field exactly when the book itself is absent.
  Every failure of a field validator names a field: its own, except that the detail
  validator names \<open>publishDate\<close>. A message is missing in exactly three failures: the
  empty page count, the empty cover image URL, and the publication date that fails the
  pattern.
\<close>

lemma validateBook_field:
  "\<not> isValid (validateBook h b) \<Longrightarrow> field (validateBook h b) = None \<longleftrightarrow> b = None"
  by (cases b)
     (auto simp: validateBook_def validators_title_def validators_author_def
        validators_pageCount_def validators_coverImageUrl_def invalid_def valid_def Let_def
        split: option.splits if_splits)

lemma in_validators:
  "(k, f) \<in> set (validators h) \<longleftrightarrow>
     k = ''title'' \<and> f = validators_title h
   \<or> k = ''isbn'' \<and> f = validators_isbn h
   \<or> k = ''author'' \<and> f = validators_author h
   \<or> k = ''coverImageUrl'' \<and> f = validators_coverImageUrl h
   \<or> k = ''price'' \<and> f = validators_price h
   \<or> k = ''pageCount'' \<and> f = validators_pageCount h
   \<or> k = ''publishDate'' \<and> f = validators_publishDate h
   \<or> k = ''detail'' \<and> f = validators_detail h"
  unfolding validators_def by (simp only: list.set insert_iff empty_iff prod.inject simp_thms)

lemma validators_field:
  assumes "(k, f) \<in> set (validators h)" and "\<not> isValid (f v)"
  shows "field (f v) = Some (if k = ''detail'' then ''publishDate'' else k)"
  using assms(1) unfolding in_validators
proof (elim disjE conjE, goal_cases)
  case 1
  with assms(2) show ?case
    by (simp add: validators_title_def invalid_def valid_def split: if_splits)
next
  case 2
  with assms(2) show ?case
    by (simp add: validators_isbn_def invalid_def valid_def split: if_splits)
next
  case 3
  with assms(2) show ?case
    by (simp add: validators_author_def invalid_def valid_def split: if_splits)
next
  case 4
  with assms(2) show ?case
    by (simp add: validators_coverImageUrl_def invalid_def valid_def split: if_splits)
next
  case 5
  with assms(2) show ?case
    by (simp add: validators_price_def invalid_def valid_def split: if_splits)
next
  case 6
  with assms(2) show ?case
    by (simp add: validators_pageCount_def invalid_def valid_def split: if_splits)
next
  case 7
  with assms(2) show ?case
    by (simp add: validators_publishDate_def invalid_def valid_def split: if_splits)
next
  case 8
  with assms(2) show ?case
    by (simp add: validators_detail_def invalid_def valid_def split: if_splits)
qed

lemma validators_message_missing:
  assumes "(k, f) \<in> set (validators h)"
  shows "\<not> isValid (f v) \<and> message (f v) = None \<longleftrightarrow>
           k = ''pageCount'' \<and> isEmpty h v
         \<or> k = ''coverImageUrl'' \<and> isEmpty h v
         \<or> k = ''publishDate'' \<and> \<not> isEmpty h v \<and> \<not> test patterns_publishDate (safeTrim h v)"
  using assms unfolding in_validators
proof (elim disjE conjE, goal_cases)
  case 1
  then show ?case
    by (simp add: validators_title_def invalid_def valid_def messages_required_values)
next
  case 2
  then show ?case
    by (simp add: validators_isbn_def invalid_def valid_def messages_required_values
        messages_format_values)
next
  case 3
  then show ?case
    by (simp add: validators_author_def invalid_def valid_def messages_required_values)
next
  case 4
  then show ?case
    by (simp add: validators_coverImageUrl_def invalid_def valid_def messages_required_values
        messages_format_values)
next
  case 5
  then show ?case
    by (simp add: validators_price_def invalid_def valid_def messages_required_values)
next
  case 6
  then show ?case
    by (simp add: validators_pageCount_def invalid_def valid_def messages_required_values
        messages_format_values)
next
  case 7
  then show ?case
    by (simp add: validators_publishDate_def invalid_def valid_def messages_required_values
        messages_format_values)
next
  case 8
  then show ?case
    by (simp add: validators_detail_def invalid_def valid_def messages_required_values)
qed

text \<open>
  C6. The claim: whenever a validator returns \<open>isValid: false\<close>, a message is present.
  The code: the page count validator and the cover image validator on the empty string,
  and the publication date validator on a date of another format, return
  \<open>isValid: false\<close> without a message; the three texts they read
  (\<open>messages.required.pageCount\<close>, \<open>messages.required.coverImageUrl\<close>,
  \<open>messages.format.publishDate\<close>) are not in the message table.
\<close>

theorem failures_without_message:
  "validators_pageCount h (Str []) =
       \<lparr>isValid = False, message = None, field = Some ''pageCount''\<rparr>
   \<and> validators_coverImageUrl h (Str []) =
       \<lparr>isValid = False, message = None, field = Some ''coverImageUrl''\<rparr>
   \<and> validators_publishDate h (Str ''15 Jan 2024'') =
       \<lparr>isValid = False, message = None, field = Some ''publishDate''\<rparr>"
  by code_simp

section \<open>Validating one field by name\<close>

lemma validateField_known:
  "map_of (validators h) fieldName = Some validator \<Longrightarrow>
     validateField h fieldName v = Result (validator v)"
  by (simp add: validateField_def)

lemma validateField_unknown:
  "map_of (validators h) fieldName = None \<Longrightarrow> map_of Object_prototype fieldName = None \<Longrightarrow>
     validateField h fieldName v =
       Result \<lparr>isValid = True, message = Some Unknown_field, field = None\<rparr>"
  by (simp add: validateField_def)

lemma validateField_nonexistent:
  "validateField h ''nonexistent'' v =
     Result \<lparr>isValid = True, message = Some Unknown_field, field = None\<rparr>"
  by (simp add: validateField_def validators_def Object_prototype_def)

text \<open>
  C2. The claim: \<open>validateField('isbn', '978-3-16-148410-0')\<close> returns \<open>isValid: true\<close>,
  and \<open>validateField('isbn', '1234')\<close> returns \<open>isValid: false\<close> with the ISBN format
  message. The code returns \<open>isValid: false\<close> with the ISBN format message for both: the
  pattern has three hyphens (\<open>isbnPattern_three_hyphens\<close>) and the first string four.
\<close>

theorem isbn_example_rejected:
  "validateField h ''isbn'' (Str ''978-3-16-148410-0'') =
     Result \<lparr>isValid = False, message = Some Format_isbn, field = Some ''isbn''\<rparr>
   \<and> validateField h ''isbn'' (Str ''1234'') =
     Result \<lparr>isValid = False, message = Some Format_isbn, field = Some ''isbn''\<rparr>"
  by code_simp

text \<open>
  C7. The claim: for every field name with no entry in the validator table,
  \<open>validateField\<close> returns a passing result with the unknown-field message. The code at
  the names \<open>toString\<close>, \<open>constructor\<close> and \<open>__proto__\<close>, none of them a key of the
  table: the lookup finds the property inherited from \<open>Object.prototype\<close>, which is
  truthy, and calls it; the outcome is a string, an object and a TypeError, never the
  passing result. (For a name that is neither a key of the table nor inherited, the code
  returns the passing result: \<open>validateField_unknown\<close>.)
\<close>

theorem inherited_names_are_not_unknown:
  "map_of (validators h) ''toString'' = None
   \<and> validateField h ''toString'' (Str ''x'') = A_string ''[object Undefined]''
   \<and> map_of (validators h) ''constructor'' = None
   \<and> validateField h ''constructor'' (Str ''x'') = An_object
   \<and> map_of (validators h) ''__proto__'' = None
   \<and> validateField h ''__proto__'' (Str ''x'') = TypeError"
  by code_simp

text \<open>
  On a detail record the answer is the helper's: a record that \<open>isEmpty\<close> finds empty
  fails, any other passes, so both outcomes occur on records for suitable helpers.
\<close>

lemma detail_record_either_way:
  "validateField \<lparr>isEmpty_object = (\<lambda>d. True), safeTrim_object = t\<rparr> ''detail''
      (Detail empty_form_detail) =
     Result \<lparr>isValid = False, message = Some Enter_publishDate, field = Some ''publishDate''\<rparr>"
  "validateField \<lparr>isEmpty_object = (\<lambda>d. False), safeTrim_object = t\<rparr> ''detail''
      (Detail empty_form_detail) =
     Result \<lparr>isValid = True, message = None, field = None\<rparr>"
  by (simp_all add: validateField_def validators_def validators_detail_def invalid_def valid_def
      messages_required_values isEmpty_def)

text \<open>
  C8. \<open>validators.detail\<close>, reached through \<open>validateField('detail', value)\<close>, fails on
  every empty value with the required message of the publication date (and its field
  name), the message \<open>validators.publishDate\<close> gives for an absent date, and passes on
  every other value. The value ranges over the absent value, the strings and the detail
  records; on a record \<open>d\<close>, empty means that \<open>isEmpty\<close> answers so
  (\<open>isEmpty_object h d\<close>).
\<close>

theorem detail_reuses_publishDate_message:
  "validateField h ''detail'' v =
     Result (if isEmpty h v
             then \<lparr>isValid = False, message = Some Enter_publishDate, field = Some ''publishDate''\<rparr>
             else \<lparr>isValid = True, message = None, field = None\<rparr>)
   \<and> validateField h ''detail'' (Detail d) =
     Result (if isEmpty_object h d
             then \<lparr>isValid = False, message = Some Enter_publishDate, field = Some ''publishDate''\<rparr>
             else \<lparr>isValid = True, message = None, field = None\<rparr>)
   \<and> validators_publishDate h Absent =
       \<lparr>isValid = False, message = Some Enter_publishDate, field = Some ''publishDate''\<rparr>"
  by (simp add: validateField_def validators_def validators_detail_def validators_publishDate_def
      invalid_def valid_def messages_required_values isEmpty_def)

text \<open>
  C9. The claim: \<open>validateField('publishDate', '2024-01-15')\<close> passes, and
  \<open>validateField('publishDate', '2024/01/15')\<close> returns \<open>isValid: false\<close> with the date
  format message. The code passes the first; for the second it returns
  \<open>isValid: false\<close> with the field \<open>publishDate\<close> and no message, since
  \<open>messages.format\<close> has no \<open>publishDate\<close>. (The format rule itself is as claimed:
  \<open>publishDate_pattern\<close>.)
\<close>

theorem publishDate_format_failure_has_no_message:
  "validateField h ''publishDate'' (Str ''2024-01-15'') =
     Result \<lparr>isValid = True, message = None, field = None\<rparr>
   \<and> validateField h ''publishDate'' (Str ''2024/01/15'') =
     Result \<lparr>isValid = False, message = None, field = Some ''publishDate''\<rparr>"
  by code_simp

end
